theory Spec2Isabelle
  imports Main
begin

section \<open>JavaScript values, promises and the observable world\<close>

text \<open>
  The library (\<^verbatim>\<open>src/enhancement.js\<close>, the revision with \<^verbatim>\<open>seedValue\<close> and
  \<^verbatim>\<open>remainingAttempts\<close>) adds combinators to the host's \<^verbatim>\<open>Promise\<close>.
  The embedding keeps the host's dynamic values as one datatype. An \<^verbatim>\<open>Error\<close>
  object is its name and its message. A number \<open>Num i\<close> stands for the integer \<open>i\<close>
  as a host Number; the host holds every integer of magnitude up to \<open>2^53 - 1\<close> exactly
  (\<^verbatim>\<open>Number.isSafeInteger\<close>), and only those values are meant (\<open>representable\<close>
  below). Fractions, \<^verbatim>\<open>NaN\<close> and the infinities are not modelled.
\<close>

datatype jsval =
    Undefined
  | Null
  | Boolean bool
  | Num int
  | Str string
  | Arr "jsval list"
  | ErrorObj string string

text \<open>The result of \<^verbatim>\<open>await e\<close>: a value, a thrown reason, or no result at all
  (the awaited promise never settles).\<close>

datatype settlement = Resolved jsval | Rejected jsval | Pending

text \<open>An in-flight promise: how it settles and at which logical time.\<close>

datatype promise = Fulfils nat jsval | Rejects nat jsval | NeverSettles

fun await :: "promise \<Rightarrow> settlement" where
  "await (Fulfils t v) = Resolved v"
| "await (Rejects t e) = Rejected e"
| "await NeverSettles = Pending"

text \<open>A synchronous call either returns or throws.\<close>

datatype 'a completion = Return 'a | Throw jsval

text \<open>The options object of \<^verbatim>\<open>Promise.retry\<close> (\<^verbatim>\<open>Partial<RetryOptions>\<close> of
  \<^verbatim>\<open>enhancement.d.ts\<close>): every property may be absent.\<close>

record options =
  opt_times :: "int option"
  opt_delay :: "nat option"
  opt_printErrors :: "bool option"
  opt_errorPrefix :: "string option"

text \<open>
  What can be observed of a run: the calls received by observed callables, the timer
  waits, the lines sent to \<^verbatim>\<open>console.error\<close>, and the objects reachable through
  references (the heap), next to the state \<open>env\<close> that the user's callables own.
\<close>

datatype event = Invoked "jsval list" settlement | Slept nat

record 's world =
  env :: 's
  trace :: "event list"
  console :: "(string \<times> jsval) list"
  heap :: "nat \<Rightarrow> options option"

text \<open>A JavaScript function, called and awaited: it receives its argument list, may
  change the world, and its awaited result is a settlement.\<close>

type_synonym 's jsfun = "jsval list \<Rightarrow> 's world \<Rightarrow> settlement \<times> 's world"

text \<open>A user callable under observation: it works on its own state only, and every call
  is recorded with its arguments and its outcome.\<close>

definition spy :: "(jsval list \<Rightarrow> 's \<Rightarrow> settlement \<times> 's) \<Rightarrow> 's jsfun" where
  "spy f args w =
     (case f args (env w) of
        (out, s') \<Rightarrow> (out, w\<lparr>env := s', trace := trace w @ [Invoked args out]\<rparr>))"

text \<open>Array indexing: an index outside the array reads \<^verbatim>\<open>undefined\<close>.\<close>

definition js_index :: "jsval list \<Rightarrow> int \<Rightarrow> jsval" where
  "js_index xs i = (if 0 \<le> i \<and> i < int (length xs) then xs ! nat i else Undefined)"

text \<open>\<^verbatim>\<open>Number.isSafeInteger\<close>, and the values all of whose numbers satisfy it.\<close>

definition safe_integer :: "int \<Rightarrow> bool" where
  "safe_integer i = (- (2 ^ 53 - 1) \<le> i \<and> i \<le> 2 ^ 53 - 1)"

fun representable :: "jsval \<Rightarrow> bool" where
  "representable (Num i) = safe_integer i"
| "representable (Arr xs) = list_all representable xs"
| "representable v = True"

subsection \<open>String conversion and \<^verbatim>\<open>Array.prototype.join\<close>\<close>

text \<open>
  The host's \<^verbatim>\<open>ToString\<close> on representable values. A safe integer prints as its
  decimal digits, with a minus sign when negative. An array prints as its elements joined
  by commas (\<^verbatim>\<open>Array.prototype.toString\<close>). An error object prints by
  \<^verbatim>\<open>Error.prototype.toString\<close>: the message alone when the name is empty, the name
  alone when the message is empty, and otherwise the name, a colon and a space, and the
  message.
\<close>

fun nat_to_string :: "nat \<Rightarrow> string" where
  "nat_to_string n =
     (if n < 10 then [''0123456789'' ! n]
      else nat_to_string (n div 10) @ [''0123456789'' ! (n mod 10)])"

definition int_to_string :: "int \<Rightarrow> string" where
  "int_to_string i =
     (if i < 0 then CHR ''-'' # nat_to_string (nat (- i)) else nat_to_string (nat i))"

fun sep_concat :: "string \<Rightarrow> string list \<Rightarrow> string" where
  "sep_concat sep [] = []"
| "sep_concat sep [x] = x"
| "sep_concat sep (x # y # ys) = x @ sep @ sep_concat sep (y # ys)"

fun to_string :: "jsval \<Rightarrow> string" where
  "to_string Undefined = ''undefined''"
| "to_string Null = ''null''"
| "to_string (Boolean b) = (if b then ''true'' else ''false'')"
| "to_string (Num i) = int_to_string i"
| "to_string (Str s) = s"
| "to_string (Arr xs) =
     sep_concat '',''
       (map (\<lambda>x. case x of Undefined \<Rightarrow> [] | Null \<Rightarrow> [] | _ \<Rightarrow> to_string x) xs)"
| "to_string (ErrorObj name msg) =
     (if name = [] then msg else if msg = [] then name else name @ '': '' @ msg)"

text \<open>\<^verbatim>\<open>xs.join(sep)\<close>: \<^verbatim>\<open>undefined\<close> and \<^verbatim>\<open>null\<close> elements become the empty
  string, every other element its string form.\<close>

definition js_join :: "string \<Rightarrow> jsval list \<Rightarrow> string" where
  "js_join sep xs =
     sep_concat sep
       (map (\<lambda>x. case x of Undefined \<Rightarrow> [] | Null \<Rightarrow> [] | _ \<Rightarrow> to_string x) xs)"

section \<open>The sequencer \<^verbatim>\<open>Promise.sync\<close>\<close>

text \<open>
  \<^verbatim>\<open>
  Promise.sync = async (tasks, seedValue) => {
      const ret = []
      for (let task of tasks) {
          const idx = ret.length
          const value = typeof task === 'function'
              ? (idx < 0
                  ? await task(seedValue, idx)
                  : await task(ret[idx-1], idx))
              : await task
          ret.push(value)
      }
      return ret
  }
  \<close>
  An element of \<^verbatim>\<open>tasks\<close> is a function, a promise, or any other value.
\<close>

datatype 's task = Callable "'s jsfun" | InFlight promise | Plain jsval

text \<open>The conditional expression of the loop body, awaited.\<close>

definition await_task :: "jsval \<Rightarrow> 's task \<Rightarrow> jsval list \<Rightarrow> 's world \<Rightarrow> settlement \<times> 's world" where
  "await_task seedValue task ret w =
     (let idx = int (length ret) in
      case task of
        Callable f \<Rightarrow>
          (if idx < 0 then f [seedValue, Num idx] w
           else f [js_index ret (idx - 1), Num idx] w)
      | InFlight p \<Rightarrow> (await p, w)
      | Plain v \<Rightarrow> (Resolved v, w))"

text \<open>The loop, with \<^verbatim>\<open>ret\<close> as accumulator: a rejection leaves the loop (the
  \<^verbatim>\<open>async\<close> function rejects), a promise that never settles suspends it for ever.\<close>

fun sync_loop :: "jsval \<Rightarrow> 's task list \<Rightarrow> jsval list \<Rightarrow> 's world \<Rightarrow> settlement \<times> 's world" where
  "sync_loop seedValue [] ret w = (Resolved (Arr ret), w)"
| "sync_loop seedValue (task # tasks) ret w =
     (case await_task seedValue task ret w of
        (Resolved v, w') \<Rightarrow> sync_loop seedValue tasks (ret @ [v]) w'
      | (Rejected e, w') \<Rightarrow> (Rejected e, w')
      | (Pending, w') \<Rightarrow> (Pending, w'))"

definition Promise_sync :: "'s task list \<Rightarrow> jsval \<Rightarrow> 's world \<Rightarrow> settlement \<times> 's world" where
  "Promise_sync tasks seedValue w = sync_loop seedValue tasks [] w"

text \<open>
  \<^verbatim>\<open>
  Promise.prototype.sync = function(callback) {
      return this.then(arr => {
          if (!(arr instanceof Array)) return this.then(r => callback(r, 0))
          arr = arr.map(inp => (last, i) => callback(inp, i, last))
          return Promise.sync(arr)
      })
  }
  \<close>
  \<open>receiver\<close> is the promise the method is called on.
\<close>

definition Promise_prototype_sync :: "promise \<Rightarrow> 's jsfun \<Rightarrow> 's world \<Rightarrow> settlement \<times> 's world" where
  "Promise_prototype_sync receiver callback w =
     (case await receiver of
        Resolved arr \<Rightarrow>
          (case arr of
             Arr xs \<Rightarrow>
               Promise_sync
                 (map (\<lambda>inp. Callable (\<lambda>args. callback [inp, js_index args 1, js_index args 0])) xs)
                 Undefined w
           | _ \<Rightarrow> callback [arr, Num 0] w)
      | Rejected e \<Rightarrow> (Rejected e, w)
      | Pending \<Rightarrow> (Pending, w))"

section \<open>The retry engine \<^verbatim>\<open>Promise.retry\<close>\<close>

text \<open>
  \<^verbatim>\<open>
  const sleep = t => new Promise(res => setTimeout(res, t))

  Promise.retry = async (fn, options, _collectedErrors = []) => {
      const {times=1, delay=500, printErrors=false, errorPrefix = ''} = options
      if (times <= 0) throw Error(`${errorPrefix}Exhausted retry loops:\n${_collectedErrors.join('\n')}`)
      try {
          const out = await fn(times)
          return out
      } catch(e) {
          if (printErrors) console.error(`${errorPrefix}Retry loop failed:`, e)
          _collectedErrors.push(e)
      }
      await sleep(delay)
      return await Promise.retry(fn, Object.assign(options, {times: times - 1}), _collectedErrors)
  }
  \<close>
  \<open>options\<close> is a reference into the heap: \<^verbatim>\<open>Object.assign\<close> writes through it and
  returns the same reference. A reference with no object behind it stands for an argument
  that is \<^verbatim>\<open>undefined\<close> or \<^verbatim>\<open>null\<close>, where destructuring and
  \<^verbatim>\<open>Object.assign\<close> throw a \<^verbatim>\<open>TypeError\<close>. The array \<^verbatim>\<open>_collectedErrors\<close>
  is passed in and its final contents are returned beside the settlement.
\<close>

definition sleep :: "nat \<Rightarrow> 's world \<Rightarrow> 's world" where
  "sleep t w = w\<lparr>trace := trace w @ [Slept t]\<rparr>"

definition console_error :: "string \<Rightarrow> jsval \<Rightarrow> 's world \<Rightarrow> 's world" where
  "console_error label e w = w\<lparr>console := console w @ [(label, e)]\<rparr>"

definition Object_assign_times :: "nat \<Rightarrow> int \<Rightarrow> 's world \<Rightarrow> 's world completion" where
  "Object_assign_times target t w =
     (case heap w target of
        None \<Rightarrow> Throw (ErrorObj ''TypeError'' ''Cannot convert undefined or null to object'')
      | Some obj \<Rightarrow> Return (w\<lparr>heap := (heap w)(target \<mapsto> obj\<lparr>opt_times := Some t\<rparr>)\<rparr>))"

text \<open>The destructuring \<^verbatim>\<open>const {times=1, delay=500, printErrors=false, errorPrefix = ''} = options\<close>:
  a default stands in for an absent property.\<close>

definition times_of :: "options \<Rightarrow> int" where
  "times_of obj = (case opt_times obj of None \<Rightarrow> 1 | Some t \<Rightarrow> t)"

definition delay_of :: "options \<Rightarrow> nat" where
  "delay_of obj = (case opt_delay obj of None \<Rightarrow> 500 | Some d \<Rightarrow> d)"

definition printErrors_of :: "options \<Rightarrow> bool" where
  "printErrors_of obj = (case opt_printErrors obj of None \<Rightarrow> False | Some b \<Rightarrow> b)"

definition errorPrefix_of :: "options \<Rightarrow> string" where
  "errorPrefix_of obj = (case opt_errorPrefix obj of None \<Rightarrow> [] | Some p \<Rightarrow> p)"

text \<open>The attempts left according to the object behind a reference (the measure of the
  recursion below).\<close>

definition remaining :: "'s world \<Rightarrow> nat \<Rightarrow> int" where
  "remaining w r = (case heap w r of None \<Rightarrow> 0 | Some obj \<Rightarrow> times_of obj)"

function Promise_retry ::
  "'s jsfun \<Rightarrow> nat \<Rightarrow> jsval list \<Rightarrow> 's world \<Rightarrow> settlement \<times> jsval list \<times> 's world" where
  "Promise_retry fn options collectedErrors w =
     (case heap w options of
        None \<Rightarrow>
          (Rejected (ErrorObj ''TypeError'' ''Cannot destructure property times of options''),
           collectedErrors, w)
      | Some obj \<Rightarrow>
          (let times = times_of obj;
               delay = delay_of obj;
               printErrors = printErrors_of obj;
               errorPrefix = errorPrefix_of obj
           in
           if times \<le> 0 then
             (Rejected (ErrorObj ''Error''
                (errorPrefix @ ''Exhausted retry loops:\<newline>'' @ js_join ''\<newline>'' collectedErrors)),
              collectedErrors, w)
           else
             (case fn [Num times] w of
                (Resolved out, w1) \<Rightarrow> (Resolved out, collectedErrors, w1)
              | (Pending, w1) \<Rightarrow> (Pending, collectedErrors, w1)
              | (Rejected e, w1) \<Rightarrow>
                  (let w2 = (if printErrors
                             then console_error (errorPrefix @ ''Retry loop failed:'') e w1
                             else w1);
                       w3 = sleep delay w2
                   in
                   case Object_assign_times options (times - 1) w3 of
                     Throw err \<Rightarrow> (Rejected err, collectedErrors @ [e], w3)
                   | Return w4 \<Rightarrow> Promise_retry fn options (collectedErrors @ [e]) w4))))"
  by pat_completeness auto
termination
  by (relation "measure (\<lambda>(fn, r, c, w). nat (remaining w r))")
     (auto simp: remaining_def times_of_def Object_assign_times_def split: option.splits)

declare Promise_retry.simps [simp del]

section \<open>\<^verbatim>\<open>Promise.firstSuccess\<close>\<close>

text \<open>
  \<^verbatim>\<open>
  Promise.firstSuccess = arr => {
      const {all, reject, resolve} = Promise
      return all(arr.map(p => p.then(
          val => reject(val),
          err => resolve(err),
      ))).then(
          errors => reject(errors),
          val => resolve(val),
      )
  }
  \<close>
  The three statics are taken off \<^verbatim>\<open>Promise\<close> and then called as plain functions,
  so their \<^verbatim>\<open>this\<close> is \<^verbatim>\<open>undefined\<close>. Each of them starts from its
  \<^verbatim>\<open>this\<close> value (ECMAScript: \<^verbatim>\<open>Promise.all\<close> and \<^verbatim>\<open>Promise.reject\<close> through
  NewPromiseCapability(C), \<^verbatim>\<open>Promise.resolve\<close> through its object check) and throws a
  \<^verbatim>\<open>TypeError\<close> when that is not a constructor. The model of the statics therefore
  takes the \<^verbatim>\<open>this\<close> value as a parameter.
\<close>

datatype this_value = PromiseConstructor | ThisUndefined

text \<open>A promise created already settled carries time 0; a promise derived from it
  never settles before the reaction that produced it ran.\<close>

fun not_before :: "nat \<Rightarrow> promise \<Rightarrow> promise" where
  "not_before t (Fulfils u v) = Fulfils (max t u) v"
| "not_before t (Rejects u e) = Rejects (max t u) e"
| "not_before t NeverSettles = NeverSettles"

fun settle_from :: "nat \<Rightarrow> promise completion \<Rightarrow> promise" where
  "settle_from t (Return q) = not_before t q"
| "settle_from t (Throw e) = Rejects t e"

text \<open>\<^verbatim>\<open>p.then(onFulfilled, onRejected)\<close>, for handlers that return a promise or throw.\<close>

fun promise_then ::
  "promise \<Rightarrow> (jsval \<Rightarrow> promise completion) \<Rightarrow> (jsval \<Rightarrow> promise completion) \<Rightarrow> promise" where
  "promise_then (Fulfils t v) onFulfilled onRejected = settle_from t (onFulfilled v)"
| "promise_then (Rejects t e) onFulfilled onRejected = settle_from t (onRejected e)"
| "promise_then NeverSettles onFulfilled onRejected = NeverSettles"

definition Promise_reject :: "this_value \<Rightarrow> jsval \<Rightarrow> promise completion" where
  "Promise_reject this_arg r =
     (case this_arg of
        ThisUndefined \<Rightarrow> Throw (ErrorObj ''TypeError'' ''PromiseReject called on non-object'')
      | PromiseConstructor \<Rightarrow> Return (Rejects 0 r))"

definition Promise_resolve :: "this_value \<Rightarrow> jsval \<Rightarrow> promise completion" where
  "Promise_resolve this_arg x =
     (case this_arg of
        ThisUndefined \<Rightarrow> Throw (ErrorObj ''TypeError'' ''PromiseResolve called on non-object'')
      | PromiseConstructor \<Rightarrow> Return (Fulfils 0 x))"

text \<open>The earliest rejection among the promises (the lowest index among equal times).\<close>

fun first_rejection :: "promise list \<Rightarrow> (nat \<times> jsval) option" where
  "first_rejection [] = None"
| "first_rejection (Rejects t e # ps) =
     (case first_rejection ps of
        None \<Rightarrow> Some (t, e)
      | Some (u, e') \<Rightarrow> if u < t then Some (u, e') else Some (t, e))"
| "first_rejection (p # ps) = first_rejection ps"

fun fulfilments :: "promise list \<Rightarrow> (nat \<times> jsval list) option" where
  "fulfilments [] = Some (0, [])"
| "fulfilments (Fulfils t v # ps) =
     (case fulfilments ps of None \<Rightarrow> None | Some (u, vs) \<Rightarrow> Some (max t u, v # vs))"
| "fulfilments (p # ps) = None"

text \<open>\<^verbatim>\<open>Promise.all\<close>: rejects with the first rejection; otherwise fulfils, once every
  promise has, with the values in index order.\<close>

definition Promise_all :: "this_value \<Rightarrow> promise list \<Rightarrow> promise completion" where
  "Promise_all this_arg ps =
     (case this_arg of
        ThisUndefined \<Rightarrow> Throw (ErrorObj ''TypeError'' ''Promise.all called on non-object'')
      | PromiseConstructor \<Rightarrow>
          Return (case first_rejection ps of
                    Some (t, e) \<Rightarrow> Rejects t e
                  | None \<Rightarrow>
                      (case fulfilments ps of
                         Some (t, vs) \<Rightarrow> Fulfils t (Arr vs)
                       | None \<Rightarrow> NeverSettles)))"

text \<open>The body of \<^verbatim>\<open>firstSuccess\<close>, for statics that see \<open>this_arg\<close> as their
  \<^verbatim>\<open>this\<close>.\<close>

definition firstSuccess_with :: "this_value \<Rightarrow> promise list \<Rightarrow> promise completion" where
  "firstSuccess_with this_arg arr =
     (let all = Promise_all this_arg;
          reject = Promise_reject this_arg;
          resolve = Promise_resolve this_arg
      in
      case all (map (\<lambda>p. promise_then p (\<lambda>val. reject val) (\<lambda>err. resolve err)) arr) of
        Throw e \<Rightarrow> Throw e
      | Return joined \<Rightarrow>
          Return (promise_then joined (\<lambda>errors. reject errors) (\<lambda>val. resolve val)))"

text \<open>The function as the source has it: the destructured statics are called with no
  receiver.\<close>

definition Promise_firstSuccess :: "promise list \<Rightarrow> promise completion" where
  "Promise_firstSuccess arr = firstSuccess_with ThisUndefined arr"

text \<open>The earliest fulfilment among the promises (the lowest index among equal times):
  the "first success" of the README.\<close>

fun first_fulfilment :: "promise list \<Rightarrow> (nat \<times> jsval) option" where
  "first_fulfilment [] = None"
| "first_fulfilment (Fulfils t v # ps) =
     (case first_fulfilment ps of
        None \<Rightarrow> Some (t, v)
      | Some (u, v') \<Rightarrow> if u < t then Some (u, v') else Some (t, v))"
| "first_fulfilment (p # ps) = first_fulfilment ps"

section \<open>Reading a run\<close>

text \<open>The world after a failed attempt of an observed callable: the call and the wait
  are on the trace, the error is printed when \<^verbatim>\<open>printErrors\<close> is set, and the object
  behind the reference has \<^verbatim>\<open>times\<close> lowered by one.\<close>

definition after_failure :: "options \<Rightarrow> nat \<Rightarrow> jsval \<Rightarrow> 's \<Rightarrow> 's world \<Rightarrow> 's world" where
  "after_failure obj r e s' w =
     w\<lparr>env := s',
       trace := trace w @ [Invoked [Num (times_of obj)] (Rejected e), Slept (delay_of obj)],
       console := (if printErrors_of obj
                   then console w @ [(errorPrefix_of obj @ ''Retry loop failed:'', e)]
                   else console w),
       heap := (heap w)(r \<mapsto> obj\<lparr>opt_times := Some (times_of obj - 1)\<rparr>)\<rparr>"

text \<open>The number of calls on a trace that ended in a rejection.\<close>

fun failed_attempts :: "event list \<Rightarrow> nat" where
  "failed_attempts [] = 0"
| "failed_attempts (Invoked args (Rejected e) # evs) = Suc (failed_attempts evs)"
| "failed_attempts (ev # evs) = failed_attempts evs"

text \<open>The argument lists of the calls on a trace, in order.\<close>

fun attempt_args :: "event list \<Rightarrow> jsval list list" where
  "attempt_args [] = []"
| "attempt_args (Invoked args out # evs) = args # attempt_args evs"
| "attempt_args (Slept d # evs) = attempt_args evs"

text \<open>Every wait on the trace lasts \<open>d\<close>, stands directly after a failed call and
  directly before another call.\<close>

fun delays_between_attempts :: "nat \<Rightarrow> event list \<Rightarrow> bool" where
  "delays_between_attempts d [] = True"
| "delays_between_attempts d (Slept d' # evs) = False"
| "delays_between_attempts d (Invoked args (Rejected e) # Slept d' # Invoked args' out # evs) =
     (d' = d \<and> delays_between_attempts d (Invoked args' out # evs))"
| "delays_between_attempts d (Invoked args out # Slept d' # evs) = False"
| "delays_between_attempts d (Invoked args out # evs) = delays_between_attempts d evs"

text \<open>The trace is a sequence of failed calls, each directly followed by a wait of
  \<open>d\<close>, and then at most one more call, which did not fail.\<close>

fun delays_follow_failures :: "nat \<Rightarrow> event list \<Rightarrow> bool" where
  "delays_follow_failures d [] = True"
| "delays_follow_failures d (Invoked args (Rejected e) # Slept d' # evs) =
     (d' = d \<and> delays_follow_failures d evs)"
| "delays_follow_failures d [Invoked args (Resolved v)] = True"
| "delays_follow_failures d [Invoked args Pending] = True"
| "delays_follow_failures d evs = False"

subsection \<open>Callables and worlds of the examples\<close>

text \<open>\<^verbatim>\<open>x => x\<close>.\<close>

definition echo_prev :: "jsval list \<Rightarrow> nat \<Rightarrow> settlement \<times> nat" where
  "echo_prev args s = (Resolved (js_index args 0), s)"

text \<open>A callback that returns its argument list and counts its calls.\<close>

definition collect_args :: "jsval list \<Rightarrow> nat \<Rightarrow> settlement \<times> nat" where
  "collect_args args s = (Resolved (Arr args), s + 1)"

text \<open>\<^verbatim>\<open>async () => { throw 'Nay' }\<close>, counting its calls.\<close>

definition alwaysNay :: "jsval list \<Rightarrow> nat \<Rightarrow> settlement \<times> nat" where
  "alwaysNay args c = (Rejected (Str ''Nay''), c + 1)"

text \<open>A callable that throws \<^verbatim>\<open>Error('down')\<close> at its first call and the number
  503 at every later one.\<close>

definition downThen503 :: "jsval list \<Rightarrow> nat \<Rightarrow> settlement \<times> nat" where
  "downThen503 args c =
     (if c = 0 then Rejected (ErrorObj ''Error'' ''down'') else Rejected (Num 503), c + 1)"

text \<open>The README's \<^verbatim>\<open>worksFifthTime\<close>: the counter is the callable's state.\<close>

definition worksFifthTime :: "jsval list \<Rightarrow> nat \<Rightarrow> settlement \<times> nat" where
  "worksFifthTime args c =
     (if c + 1 > 4 then Resolved (Str ''Yay'') else Rejected (Str ''Nay''), c + 1)"

definition world0 :: "nat world" where
  "world0 = \<lparr>env = 0, trace = [], console = [], heap = Map.empty\<rparr>"

text \<open>A fresh world whose only object is \<open>obj\<close>, behind reference 0.\<close>

definition world_with :: "options \<Rightarrow> nat world" where
  "world_with obj = \<lparr>env = 0, trace = [], console = [], heap = [0 \<mapsto> obj]\<rparr>"

definition opts0 :: options where
  "opts0 = \<lparr>opt_times = Some 0, opt_delay = Some 30, opt_printErrors = None,
             opt_errorPrefix = Some ''boot: ''\<rparr>"

definition opts2 :: options where
  "opts2 = \<lparr>opt_times = Some 2, opt_delay = Some 30, opt_printErrors = Some True,
             opt_errorPrefix = Some ''boot: ''\<rparr>"

definition opts8 :: options where
  "opts8 = \<lparr>opt_times = Some 8, opt_delay = Some 30, opt_printErrors = None,
             opt_errorPrefix = None\<rparr>"

section \<open>Properties of the sequencer\<close>

lemma js_index_last [simp]: "js_index (ret @ [v]) (int (length ret)) = v"
  by (simp add: js_index_def)

lemma js_index_pair [simp]: "js_index [a, b] 0 = a" "js_index [a, b] 1 = b"
  by (simp_all add: js_index_def)

text \<open>The test \<^verbatim>\<open>idx < 0\<close> never holds for a length, so the loop body never reads
  \<^verbatim>\<open>seedValue\<close>.\<close>

lemma await_task_eq:
  "await_task seedValue task ret w =
     (case task of
        Callable f \<Rightarrow> f [js_index ret (int (length ret) - 1), Num (int (length ret))] w
      | InFlight p \<Rightarrow> (await p, w)
      | Plain v \<Rightarrow> (Resolved v, w))"
  by (simp add: await_task_def Let_def split: task.splits)

lemma sync_loop_ignores_seed: "sync_loop seedValue tasks ret w = sync_loop Undefined tasks ret w"
  by (induction tasks arbitrary: ret w)
     (auto simp: await_task_eq split: prod.splits settlement.splits task.splits)

lemma sync_ignores_seed: "Promise_sync tasks seedValue w = Promise_sync tasks Undefined w"
  unfolding Promise_sync_def by (rule sync_loop_ignores_seed)

lemma sync_loop_append:
  "sync_loop seedValue (xs @ ys) ret w =
     (case sync_loop seedValue xs ret w of
        (Resolved (Arr vs), w1) \<Rightarrow> sync_loop seedValue ys vs w1
      | other \<Rightarrow> other)"
proof (induction xs arbitrary: ret w)
  case Nil
  show ?case by simp
next
  case (Cons task xs)
  obtain out w' where step: "await_task seedValue task ret w = (out, w')"
    by (cases "await_task seedValue task ret w")
  show ?case
  proof (cases out)
    case (Resolved v)
    with step Cons.IH [of "ret @ [v]" w'] show ?thesis by simp
  next
    case (Rejected e)
    with step show ?thesis by simp
  next
    case Pending
    with step show ?thesis by simp
  qed
qed

lemma sync_loop_resolved_shape:
  "sync_loop seedValue xs ret w = (Resolved v, w') \<Longrightarrow>
     \<exists>vs. v = Arr (ret @ vs) \<and> length vs = length xs"
proof (induction xs arbitrary: ret w)
  case Nil
  then show ?case by simp
next
  case (Cons task xs)
  obtain out w1 where step: "await_task seedValue task ret w = (out, w1)"
    by (cases "await_task seedValue task ret w")
  show ?case
  proof (cases out)
    case (Resolved u)
    with step Cons.prems have "sync_loop seedValue xs (ret @ [u]) w1 = (Resolved v, w')"
      by simp
    from Cons.IH [OF this] obtain vs where "v = Arr ((ret @ [u]) @ vs)" "length vs = length xs"
      by blast
    then have "v = Arr (ret @ (u # vs)) \<and> length (u # vs) = length (task # xs)" by simp
    then show ?thesis by blast
  next
    case (Rejected e)
    with step Cons.prems show ?thesis by simp
  next
    case Pending
    with step Cons.prems show ?thesis by simp
  qed
qed

text \<open>The closures that \<^verbatim>\<open>Promise.prototype.sync\<close> hands to the sequencer, run
  from any accumulator, for an observed callback whose calls all fulfil.\<close>

lemma sync_loop_closures:
  assumes total: "\<forall>args s. \<exists>v s'. cb args s = (Resolved v, s')"
  shows "\<exists>rs w'.
           sync_loop seedValue
             (map (\<lambda>inp. Callable (\<lambda>args. spy cb [inp, js_index args 1, js_index args 0])) xs) ret w
             = (Resolved (Arr (ret @ rs)), w')
         \<and> length rs = length xs
         \<and> trace w' = trace w @
              map (\<lambda>(i, x, prev, r). Invoked [x, Num (int i), prev] (Resolved r))
                (zip [length ret ..< length ret + length xs]
                  (zip xs (zip (js_index ret (int (length ret) - 1) # rs) rs)))"
proof (induction xs arbitrary: ret w)
  case Nil
  show ?case by simp
next
  case (Cons x xs)
  let ?prev = "js_index ret (int (length ret) - 1)"
  let ?args = "[x, Num (int (length ret)), ?prev]"
  from total obtain v s' where call: "cb ?args (env w) = (Resolved v, s')" by blast
  define w1 where "w1 = w\<lparr>env := s', trace := trace w @ [Invoked ?args (Resolved v)]\<rparr>"
  have step:
    "await_task seedValue (Callable (\<lambda>args. spy cb [x, js_index args 1, js_index args 0])) ret w
       = (Resolved v, w1)"
    using call by (simp add: await_task_eq spy_def w1_def)
  from Cons.IH [of "ret @ [v]" w1] obtain rs w' where
    run: "sync_loop seedValue
            (map (\<lambda>inp. Callable (\<lambda>args. spy cb [inp, js_index args 1, js_index args 0])) xs)
            (ret @ [v]) w1
            = (Resolved (Arr ((ret @ [v]) @ rs)), w')"
    and len: "length rs = length xs"
    and tr: "trace w' = trace w1 @
              map (\<lambda>(i, x, prev, r). Invoked [x, Num (int i), prev] (Resolved r))
                (zip [length (ret @ [v]) ..< length (ret @ [v]) + length xs]
                  (zip xs (zip (js_index (ret @ [v]) (int (length (ret @ [v])) - 1) # rs) rs)))"
    by blast
  have upt: "[length ret ..< length ret + length (x # xs)]
               = length ret # [Suc (length ret) ..< Suc (length ret) + length xs]"
    by (simp add: upt_conv_Cons del: upt_Suc)
  have "sync_loop seedValue
          (map (\<lambda>inp. Callable (\<lambda>args. spy cb [inp, js_index args 1, js_index args 0])) (x # xs)) ret w
          = (Resolved (Arr (ret @ (v # rs))), w')"
    using step run by simp
  moreover have "length (v # rs) = length (x # xs)" using len by simp
  moreover have "trace w' = trace w @
              map (\<lambda>(i, x, prev, r). Invoked [x, Num (int i), prev] (Resolved r))
                (zip [length ret ..< length ret + length (x # xs)]
                  (zip (x # xs) (zip (?prev # (v # rs)) (v # rs))))"
    unfolding upt using tr by (simp add: w1_def)
  ultimately show ?case by blast
qed

subsection \<open>The empty sequence\<close>

text \<open>
  C9. \<^verbatim>\<open>Promise.sync\<close> applied to an empty task collection, with any seed value
  (\<^verbatim>\<open>undefined\<close>, the value of a missing argument, included), resolves to the empty
  array and leaves the world as it was: no callable is invoked.
\<close>

theorem sync_empty: "Promise_sync [] seedValue w = (Resolved (Arr []), w)"
  by (simp add: Promise_sync_def)

theorem sync_empty_witness:
  "Promise_sync [] (Num 7) world0 = (Resolved (Arr []), world0)
   \<and> Promise_sync [] Undefined world0 = (Resolved (Arr []), world0)"
  using sync_empty [of "Num 7" world0] sync_empty [of Undefined world0] by simp

subsection \<open>The seed value\<close>

text \<open>
  C1 says that the callable at index 0 is called with the seed value. The code compares
  \<^verbatim>\<open>idx < 0\<close>, which no array length satisfies, so the branch that passes
  \<^verbatim>\<open>seedValue\<close> is dead: at \<^verbatim>\<open>Promise.sync([x => x], 5)\<close> the callable is called
  with \<^verbatim>\<open>(undefined, 0)\<close>, not with \<^verbatim>\<open>(5, 0)\<close>, and the result is
  \<^verbatim>\<open>[undefined]\<close>.
\<close>

theorem sync_seed_not_passed:
  "Promise_sync [Callable (spy echo_prev)] (Num 5) world0
     = (Resolved (Arr [Undefined]),
        world0\<lparr>trace := [Invoked [Undefined, Num 0] (Resolved Undefined)]\<rparr>)"
  by (simp add: Promise_sync_def await_task_eq spy_def echo_prev_def js_index_def world0_def)

subsection \<open>Short-circuit on failure\<close>

lemma js_index_before_end:
  "js_index vs (int (length vs) - 1) = (if vs = [] then Undefined else last vs)"
  by (cases vs rule: rev_cases) (simp_all add: js_index_def nth_append)

text \<open>
  C5. Let the elements before index \<open>k\<close> settle successfully: the sequencer run on them
  alone resolves to \<open>vs\<close> and leaves the world \<open>w1\<close> (so \<open>k\<close> is the length of
  \<open>vs\<close>). An element at index \<open>k\<close> fails in one of two ways. It is a callable
  \<open>f\<close> whose call with the previous result (\<^verbatim>\<open>undefined\<close> when there is none) and
  \<open>k\<close> rejects with \<open>e\<close>, leaving the world \<open>w2\<close>; or it is a promise that rejects
  with \<open>r\<close>. In both cases \<^verbatim>\<open>Promise.sync\<close> on the whole list rejects with that same
  error and returns no list of partial results, and the world it leaves is the one in
  which the element failed (\<open>w2\<close>, or \<open>w1\<close> for the promise), whatever elements
  \<open>post\<close> follow in the list: no later element is invoked.
\<close>

theorem sync_short_circuit:
  assumes "Promise_sync pre seedValue w = (Resolved (Arr vs), w1)"
  shows "length pre = length vs
         \<and> (f [if vs = [] then Undefined else last vs, Num (int (length pre))] w1 = (Rejected e, w2)
              \<longrightarrow> Promise_sync (pre @ Callable f # post) seedValue w = (Rejected e, w2))
         \<and> Promise_sync (pre @ InFlight (Rejects t r) # post) seedValue w = (Rejected r, w1)"
proof -
  from assms obtain us where "Arr vs = Arr ([] @ us)" "length us = length pre"
    unfolding Promise_sync_def using sync_loop_resolved_shape by blast
  then have len: "length pre = length vs" by simp
  have callable: "Promise_sync (pre @ Callable f # post) seedValue w = (Rejected e, w2)"
    if "f [if vs = [] then Undefined else last vs, Num (int (length pre))] w1 = (Rejected e, w2)"
  proof -
    from that have "await_task seedValue (Callable f) vs w1 = (Rejected e, w2)"
      by (simp add: await_task_eq js_index_before_end len)
    with assms show ?thesis by (simp add: Promise_sync_def sync_loop_append)
  qed
  have "await_task seedValue (InFlight (Rejects t r)) vs w1 = (Rejected r, w1)"
    by (simp add: await_task_eq)
  with assms have promise:
    "Promise_sync (pre @ InFlight (Rejects t r) # post) seedValue w = (Rejected r, w1)"
    by (simp add: Promise_sync_def sync_loop_append)
  from len callable promise show ?thesis by blast
qed

text \<open>The README's list with a failing step at index 2, once a callable that throws and
  once a rejected promise: the step at index 3 leaves no call on the trace.\<close>

theorem sync_short_circuit_witness:
  "Promise_sync
     ([Plain (Str ''domain.com''), Callable (spy echo_prev)]
        @ Callable (spy alwaysNay) # [Callable (spy echo_prev)]) Undefined world0
     = (Rejected (Str ''Nay''),
        world0\<lparr>env := 1,
               trace := [Invoked [Str ''domain.com'', Num 1] (Resolved (Str ''domain.com'')),
                         Invoked [Str ''domain.com'', Num 2] (Rejected (Str ''Nay''))]\<rparr>)
   \<and> Promise_sync
     ([Plain (Str ''domain.com''), Callable (spy echo_prev)]
        @ InFlight (Rejects 3 (Str ''boom'')) # [Callable (spy echo_prev)]) Undefined world0
     = (Rejected (Str ''boom''),
        world0\<lparr>trace := [Invoked [Str ''domain.com'', Num 1] (Resolved (Str ''domain.com''))]\<rparr>)"
proof -
  let ?w1 = "world0\<lparr>trace := [Invoked [Str ''domain.com'', Num 1] (Resolved (Str ''domain.com''))]\<rparr>"
  let ?w2 = "world0\<lparr>env := 1,
               trace := [Invoked [Str ''domain.com'', Num 1] (Resolved (Str ''domain.com'')),
                         Invoked [Str ''domain.com'', Num 2] (Rejected (Str ''Nay''))]\<rparr>"
  let ?vs = "[Str ''domain.com'', Str ''domain.com'']"
  let ?pre = "[Plain (Str ''domain.com''), Callable (spy echo_prev)]"
  have pre: "Promise_sync ?pre Undefined world0 = (Resolved (Arr ?vs), ?w1)"
    by (simp add: Promise_sync_def await_task_def spy_def echo_prev_def js_index_def world0_def)
  have fails: "spy alwaysNay [if ?vs = [] then Undefined else last ?vs, Num (int (length ?pre))] ?w1
                 = (Rejected (Str ''Nay''), ?w2)"
    by (simp add: spy_def alwaysNay_def world0_def)
  from sync_short_circuit [OF pre, where f = "spy alwaysNay" and e = "Str ''Nay''" and ?w2.0 = ?w2
      and post = "[Callable (spy echo_prev)]" and t = 3 and r = "Str ''boom''"] fails
  show ?thesis by simp
qed

subsection \<open>The chained form\<close>

text \<open>
  C8. On a promise that fulfils with the array \<open>xs\<close>, \<^verbatim>\<open>.sync(callback)\<close> with an
  observed callback whose calls all fulfil resolves to an array \<open>rs\<close> as long as
  \<open>xs\<close>, and the calls it made are, in this order, one per index \<open>i\<close>: the callback
  received \<open>(xs[i], i, prev)\<close> and its result was \<open>rs[i]\<close>, where \<open>prev\<close> is
  \<^verbatim>\<open>undefined\<close> at index 0 and \<open>rs[i-1]\<close> after it (the list of third arguments is
  \<open>Undefined # rs\<close>, cut to the length of \<open>xs\<close>).
\<close>

theorem prototype_sync_in_order:
  assumes "\<forall>args s. \<exists>v s'. cb args s = (Resolved v, s')"
  shows "\<exists>rs w'.
           Promise_prototype_sync (Fulfils t (Arr xs)) (spy cb) w = (Resolved (Arr rs), w')
         \<and> length rs = length xs
         \<and> trace w' = trace w @
              map (\<lambda>(i, x, prev, r). Invoked [x, Num (int i), prev] (Resolved r))
                (zip [0 ..< length xs] (zip xs (zip (Undefined # rs) rs)))"
proof -
  from sync_loop_closures [OF assms, of Undefined xs "[]" w]
  show ?thesis
    by (auto simp: Promise_prototype_sync_def Promise_sync_def js_index_def)
qed

theorem prototype_sync_in_order_witness:
  "\<exists>rs w'.
     Promise_prototype_sync (Fulfils 3 (Arr [Str ''jon'', Str ''ally''])) (spy collect_args) world0
       = (Resolved (Arr rs), w')
     \<and> length rs = 2
     \<and> trace w' =
         map (\<lambda>(i, x, prev, r). Invoked [x, Num (int i), prev] (Resolved r))
           (zip [0 ..< 2] (zip [Str ''jon'', Str ''ally''] (zip (Undefined # rs) rs)))"
proof -
  have total: "\<forall>args s. \<exists>v s'. collect_args args s = (Resolved v, s')"
    by (simp add: collect_args_def)
  from prototype_sync_in_order [OF total, of 3 "[Str ''jon'', Str ''ally'']" world0]
  obtain rs w' where
    run: "Promise_prototype_sync (Fulfils 3 (Arr [Str ''jon'', Str ''ally''])) (spy collect_args) world0
            = (Resolved (Arr rs), w')"
    and len: "length rs = length [Str ''jon'', Str ''ally'']"
    and tr: "trace w' = trace world0 @
               map (\<lambda>(i, x, prev, r). Invoked [x, Num (int i), prev] (Resolved r))
                 (zip [0 ..< length [Str ''jon'', Str ''ally'']]
                    (zip [Str ''jon'', Str ''ally''] (zip (Undefined # rs) rs)))"
    by blast
  from len have len2: "length rs = 2" by simp
  from tr have "trace w' =
         map (\<lambda>(i, x, prev, r). Invoked [x, Num (int i), prev] (Resolved r))
           (zip [0 ..< 2] (zip [Str ''jon'', Str ''ally''] (zip (Undefined # rs) rs)))"
    by (simp add: world0_def eval_nat_numeral)
  with run len2 show ?thesis by blast
qed

section \<open>Properties of the retry engine\<close>

lemma opts_after_failure [simp]:
  "times_of (obj\<lparr>opt_times := Some t\<rparr>) = t"
  "delay_of (obj\<lparr>opt_times := Some t\<rparr>) = delay_of obj"
  "printErrors_of (obj\<lparr>opt_times := Some t\<rparr>) = printErrors_of obj"
  "errorPrefix_of (obj\<lparr>opt_times := Some t\<rparr>) = errorPrefix_of obj"
  by (simp_all add: times_of_def delay_of_def printErrors_of_def errorPrefix_of_def)

lemma after_failure_heap [simp]:
  "heap (after_failure obj r e s' w) r = Some (obj\<lparr>opt_times := Some (times_of obj - 1)\<rparr>)"
  by (simp add: after_failure_def)

subsection \<open>One round of the recursion\<close>

lemma retry_exhausted:
  assumes "heap w r = Some obj" "times_of obj \<le> 0"
  shows "Promise_retry fn r c w =
           (Rejected (ErrorObj ''Error''
              (errorPrefix_of obj @ ''Exhausted retry loops:\<newline>'' @ js_join ''\<newline>'' c)), c, w)"
  using assms by (simp add: Promise_retry.simps)

lemma retry_spy_resolved:
  assumes "heap w r = Some obj" "0 < times_of obj"
      and "f [Num (times_of obj)] (env w) = (Resolved v, s')"
  shows "Promise_retry (spy f) r c w =
           (Resolved v, c,
            w\<lparr>env := s', trace := trace w @ [Invoked [Num (times_of obj)] (Resolved v)]\<rparr>)"
  using assms by (simp add: Promise_retry.simps spy_def)

lemma retry_spy_pending:
  assumes "heap w r = Some obj" "0 < times_of obj"
      and "f [Num (times_of obj)] (env w) = (Pending, s')"
  shows "Promise_retry (spy f) r c w =
           (Pending, c, w\<lparr>env := s', trace := trace w @ [Invoked [Num (times_of obj)] Pending]\<rparr>)"
  using assms by (simp add: Promise_retry.simps spy_def)

lemma retry_spy_rejected:
  assumes "heap w r = Some obj" "0 < times_of obj"
      and "f [Num (times_of obj)] (env w) = (Rejected e, s')"
  shows "Promise_retry (spy f) r c w =
           Promise_retry (spy f) r (c @ [e]) (after_failure obj r e s' w)"
  using assms
  by (cases w)
     (simp add: Promise_retry.simps [of "spy f" r c] spy_def after_failure_def
        sleep_def console_error_def Object_assign_times_def Let_def)

text \<open>Induction over the rounds of a run with an observed callable: the four ways a
  round can go.\<close>

lemma retry_spy_induct [consumes 1, case_names exhausted resolved pending rejected]:
  assumes start: "heap w r = Some obj"
    and exhausted: "\<And>obj c w. heap w r = Some obj \<Longrightarrow> times_of obj \<le> 0 \<Longrightarrow>
          P obj c w (Rejected (ErrorObj ''Error''
            (errorPrefix_of obj @ ''Exhausted retry loops:\<newline>'' @ js_join ''\<newline>'' c)), c, w)"
    and resolved: "\<And>obj c w v s'. heap w r = Some obj \<Longrightarrow> 0 < times_of obj \<Longrightarrow>
          f [Num (times_of obj)] (env w) = (Resolved v, s') \<Longrightarrow>
          P obj c w (Resolved v, c,
            w\<lparr>env := s', trace := trace w @ [Invoked [Num (times_of obj)] (Resolved v)]\<rparr>)"
    and pending: "\<And>obj c w s'. heap w r = Some obj \<Longrightarrow> 0 < times_of obj \<Longrightarrow>
          f [Num (times_of obj)] (env w) = (Pending, s') \<Longrightarrow>
          P obj c w (Pending, c,
            w\<lparr>env := s', trace := trace w @ [Invoked [Num (times_of obj)] Pending]\<rparr>)"
    and rejected: "\<And>obj c w e s'. heap w r = Some obj \<Longrightarrow> 0 < times_of obj \<Longrightarrow>
          f [Num (times_of obj)] (env w) = (Rejected e, s') \<Longrightarrow>
          P (obj\<lparr>opt_times := Some (times_of obj - 1)\<rparr>) (c @ [e]) (after_failure obj r e s' w)
            (Promise_retry (spy f) r (c @ [e]) (after_failure obj r e s' w)) \<Longrightarrow>
          P obj c w (Promise_retry (spy f) r (c @ [e]) (after_failure obj r e s' w))"
  shows "P obj c w (Promise_retry (spy f) r c w)"
  using start
proof (induction "nat (times_of obj)" arbitrary: obj c w)
  case 0
  then have "times_of obj \<le> 0" by simp
  with "0.prems" show ?case
    using exhausted [of w obj c] by (simp add: retry_exhausted)
next
  case (Suc n)
  then have pos: "0 < times_of obj" by linarith
  obtain out s' where call: "f [Num (times_of obj)] (env w) = (out, s')"
    by (cases "f [Num (times_of obj)] (env w)")
  show ?case
  proof (cases out)
    case (Resolved v)
    with call pos Suc.prems show ?thesis
      using resolved [of w obj v s' c] by (simp add: retry_spy_resolved)
  next
    case Pending
    with call pos Suc.prems show ?thesis
      using pending [of w obj s' c] by (simp add: retry_spy_pending)
  next
    case (Rejected e)
    let ?obj = "obj\<lparr>opt_times := Some (times_of obj - 1)\<rparr>"
    let ?w = "after_failure obj r e s' w"
    have "n = nat (times_of ?obj)" using Suc.hyps(2) by simp
    moreover have "heap ?w r = Some ?obj" by simp
    ultimately have "P ?obj (c @ [e]) ?w (Promise_retry (spy f) r (c @ [e]) ?w)"
      by (rule Suc.hyps(1))
    with call pos Suc.prems Rejected show ?thesis
      using rejected [of w obj e s' c] by (simp add: retry_spy_rejected)
  qed
qed

subsection \<open>Invariants of a run\<close>

lemma retry_spy_delays:
  assumes "heap w r = Some obj"
  shows "case Promise_retry (spy f) r c w of
           (res, c', w') \<Rightarrow>
             \<exists>evs. trace w' = trace w @ evs \<and> delays_follow_failures (delay_of obj) evs"
  using assms
proof (induction rule: retry_spy_induct)
  case (exhausted obj c w)
  show ?case by simp
next
  case (resolved obj c w v s')
  show ?case by simp
next
  case (pending obj c w s')
  show ?case by simp
next
  case (rejected obj c w e s')
  obtain res c' w' where run:
    "Promise_retry (spy f) r (c @ [e]) (after_failure obj r e s' w) = (res, c', w')"
    by (cases "Promise_retry (spy f) r (c @ [e]) (after_failure obj r e s' w)")
  with rejected.IH obtain evs where
    "trace w' = trace (after_failure obj r e s' w) @ evs"
    "delays_follow_failures (delay_of obj) evs"
    by auto
  then have "trace w' =
        trace w @ (Invoked [Num (times_of obj)] (Rejected e) # Slept (delay_of obj) # evs)
      \<and> delays_follow_failures (delay_of obj)
           (Invoked [Num (times_of obj)] (Rejected e) # Slept (delay_of obj) # evs)"
    by (simp add: after_failure_def)
  with run show ?case by auto
qed

lemma retry_spy_heap:
  assumes "heap w r = Some obj"
  shows "case Promise_retry (spy f) r c w of
           (res, c', w') \<Rightarrow>
             \<exists>evs. trace w' = trace w @ evs
               \<and> heap w' =
                   (if failed_attempts evs = 0 then heap w
                    else (heap w)(r \<mapsto>
                           obj\<lparr>opt_times := Some (times_of obj - int (failed_attempts evs))\<rparr>))
               \<and> attempt_args evs =
                   map (\<lambda>i. [Num (times_of obj - int i)]) [0 ..< length (attempt_args evs)]"
  using assms
proof (induction rule: retry_spy_induct)
  case (exhausted obj c w)
  show ?case by simp
next
  case (resolved obj c w v s')
  show ?case by simp
next
  case (pending obj c w s')
  show ?case by simp
next
  case (rejected obj c w e s')
  let ?obj = "obj\<lparr>opt_times := Some (times_of obj - 1)\<rparr>"
  let ?w = "after_failure obj r e s' w"
  obtain res c' w' where run: "Promise_retry (spy f) r (c @ [e]) ?w = (res, c', w')"
    by (cases "Promise_retry (spy f) r (c @ [e]) ?w")
  with rejected.IH obtain evs where
    tr: "trace w' = trace ?w @ evs"
    and hp: "heap w' = (if failed_attempts evs = 0 then heap ?w
               else (heap ?w)(r \<mapsto>
                      ?obj\<lparr>opt_times := Some (times_of ?obj - int (failed_attempts evs))\<rparr>))"
    and ar: "attempt_args evs =
               map (\<lambda>i. [Num (times_of ?obj - int i)]) [0 ..< length (attempt_args evs)]"
    by auto
  let ?evs = "Invoked [Num (times_of obj)] (Rejected e) # Slept (delay_of obj) # evs"
  have 1: "trace w' = trace w @ ?evs" using tr by (simp add: after_failure_def)
  have 2: "heap w' =
             (heap w)(r \<mapsto> obj\<lparr>opt_times := Some (times_of obj - int (failed_attempts ?evs))\<rparr>)"
    using hp by (simp add: after_failure_def algebra_simps)
  have "attempt_args ?evs =
          [Num (times_of obj)] #
            map (\<lambda>i. [Num (times_of obj - int (Suc i))]) [0 ..< length (attempt_args evs)]"
    using ar by (simp add: algebra_simps)
  also have "\<dots> = map (\<lambda>i. [Num (times_of obj - int i)]) [0 ..< Suc (length (attempt_args evs))]"
    by (simp add: map_upt_Suc del: upt_Suc)
  finally have 3: "attempt_args ?evs =
      map (\<lambda>i. [Num (times_of obj - int i)]) [0 ..< length (attempt_args ?evs)]"
    by simp
  from 1 2 3 have all: "trace w' = trace w @ ?evs
      \<and> heap w' = (if failed_attempts ?evs = 0 then heap w
          else (heap w)(r \<mapsto>
                 obj\<lparr>opt_times := Some (times_of obj - int (failed_attempts ?evs))\<rparr>))
      \<and> attempt_args ?evs =
          map (\<lambda>i. [Num (times_of obj - int i)]) [0 ..< length (attempt_args ?evs)]"
    by simp
  show ?case unfolding run prod.case by (rule exI [of _ ?evs]) (rule all)
qed

lemma zip_upt_Cons:
  "zip [0 ..< Suc k] (e # es) = (0, e) # map (\<lambda>(i, x). (Suc i, x)) (zip [0 ..< k] es)"
proof -
  have "[0 ..< Suc k] = 0 # map Suc [0 ..< k]"
    by (simp add: upt_conv_Cons map_Suc_upt del: upt_Suc)
  then show ?thesis by (simp add: zip_map1 del: upt_Suc)
qed

lemma retry_spy_always_fails:
  assumes fails: "\<forall>args s. \<exists>e s'. f args s = (Rejected e, s') \<and> Q e"
      and start: "heap w r = Some obj"
  shows "case Promise_retry (spy f) r c w of
           (res, c', w') \<Rightarrow>
             \<exists>errs. res = Rejected (ErrorObj ''Error''
                        (errorPrefix_of obj @ ''Exhausted retry loops:\<newline>''
                           @ js_join ''\<newline>'' (c @ errs)))
               \<and> c' = c @ errs
               \<and> length errs = nat (times_of obj)
               \<and> list_all Q errs
               \<and> trace w' = trace w @
                    concat (map (\<lambda>(i, e). [Invoked [Num (times_of obj - int i)] (Rejected e),
                                              Slept (delay_of obj)])
                            (zip [0 ..< length errs] errs))"
  using start
proof (induction rule: retry_spy_induct)
  case (exhausted obj c w)
  then show ?case by simp
next
  case (resolved obj c w v s')
  with fails show ?case by (metis Pair_inject settlement.distinct(1))
next
  case (pending obj c w s')
  with fails show ?case by (metis Pair_inject settlement.distinct(5))
next
  case (rejected obj c w e s')
  let ?obj = "obj\<lparr>opt_times := Some (times_of obj - 1)\<rparr>"
  let ?w = "after_failure obj r e s' w"
  from fails obtain e0 s0 where "f [Num (times_of obj)] (env w) = (Rejected e0, s0)" "Q e0"
    by blast
  with rejected(3) have q: "Q e" by simp
  obtain res c' w' where run: "Promise_retry (spy f) r (c @ [e]) ?w = (res, c', w')"
    by (cases "Promise_retry (spy f) r (c @ [e]) ?w")
  with rejected.IH obtain errs where
    res: "res = Rejected (ErrorObj ''Error''
            (errorPrefix_of ?obj @ ''Exhausted retry loops:\<newline>''
               @ js_join ''\<newline>'' ((c @ [e]) @ errs)))"
    and c': "c' = (c @ [e]) @ errs"
    and len: "length errs = nat (times_of ?obj)"
    and qs: "list_all Q errs"
    and tr: "trace w' = trace ?w @
               concat (map (\<lambda>(i, e). [Invoked [Num (times_of ?obj - int i)] (Rejected e),
                                         Slept (delay_of ?obj)])
                       (zip [0 ..< length errs] errs))"
    by auto
  have shift:
    "(\<lambda>(i, e). [Invoked [Num (times_of obj - 1 - int i)] (Rejected e), Slept (delay_of obj)])
      = (\<lambda>(i, e). [Invoked [Num (times_of obj - int i)] (Rejected e), Slept (delay_of obj)])
          \<circ> (\<lambda>(i, x). (Suc i, x))"
    by (auto simp: fun_eq_iff algebra_simps)
  have all: "res = Rejected (ErrorObj ''Error''
            (errorPrefix_of obj @ ''Exhausted retry loops:\<newline>''
               @ js_join ''\<newline>'' (c @ (e # errs))))
    \<and> c' = c @ (e # errs)
    \<and> length (e # errs) = nat (times_of obj)
    \<and> list_all Q (e # errs)
    \<and> trace w' = trace w @
               concat (map (\<lambda>(i, e). [Invoked [Num (times_of obj - int i)] (Rejected e),
                                         Slept (delay_of obj)])
                       (zip [0 ..< length (e # errs)] (e # errs)))"
    using res c' len tr q qs \<open>0 < times_of obj\<close>
    by (simp add: zip_upt_Cons shift after_failure_def del: upt_Suc)
  show ?case unfolding run prod.case by (rule exI [of _ "e # errs"]) (rule all)
qed

subsection \<open>Runs of the examples\<close>

lemma nay_twice_run:
  "fst (Promise_retry (spy alwaysNay) 0 [] (world_with opts2))
     = Rejected (ErrorObj ''Error'' ''boot: Exhausted retry loops:\<newline>Nay\<newline>Nay'')"
  "trace (snd (snd (Promise_retry (spy alwaysNay) 0 [] (world_with opts2))))
     = [Invoked [Num 2] (Rejected (Str ''Nay'')), Slept 30,
        Invoked [Num 1] (Rejected (Str ''Nay'')), Slept 30]"
  by (simp_all add: Promise_retry.simps spy_def alwaysNay_def world_with_def opts2_def
      times_of_def delay_of_def printErrors_of_def errorPrefix_of_def sleep_def console_error_def
      Object_assign_times_def js_join_def)

lemma down_503_run:
  "fst (Promise_retry (spy downThen503) 0 [] (world_with opts2))
     = Rejected (ErrorObj ''Error''
         ''boot: Exhausted retry loops:\<newline>Error: down\<newline>503'')"
  by (simp add: Promise_retry.simps spy_def downThen503_def world_with_def opts2_def
      times_of_def delay_of_def printErrors_of_def errorPrefix_of_def sleep_def console_error_def
      Object_assign_times_def js_join_def int_to_string_def)

lemma fifth_time_run:
  "fst (Promise_retry (spy worksFifthTime) 0 [] (world_with opts8)) = Resolved (Str ''Yay'')"
  "fst (snd (Promise_retry (spy worksFifthTime) 0 [] (world_with opts8)))
     = [Str ''Nay'', Str ''Nay'', Str ''Nay'', Str ''Nay'']"
  "trace (snd (snd (Promise_retry (spy worksFifthTime) 0 [] (world_with opts8))))
     = [Invoked [Num 8] (Rejected (Str ''Nay'')), Slept 30,
        Invoked [Num 7] (Rejected (Str ''Nay'')), Slept 30,
        Invoked [Num 6] (Rejected (Str ''Nay'')), Slept 30,
        Invoked [Num 5] (Rejected (Str ''Nay'')), Slept 30,
        Invoked [Num 4] (Resolved (Str ''Yay''))]"
  by (simp_all add: Promise_retry.simps spy_def worksFifthTime_def world_with_def opts8_def
      times_of_def delay_of_def printErrors_of_def errorPrefix_of_def sleep_def console_error_def
      Object_assign_times_def js_join_def)

subsection \<open>Exhaustion\<close>

text \<open>
  C3. For an observed callable that fails on every call, with representable errors, and
  an options object with \<^verbatim>\<open>times: n\<close>, \<^verbatim>\<open>Promise.retry\<close> makes exactly \<open>n\<close>
  calls (with \<open>n\<close>, \<open>n - 1\<close>, ..., 1 remaining attempts, each followed by a wait) and
  rejects with an \<^verbatim>\<open>Error\<close> whose message is the configured \<^verbatim>\<open>errorPrefix\<close>, then
  \<^verbatim>\<open>Exhausted retry loops:\<close> and a newline, then the string forms of the \<open>n\<close>
  collected errors joined by newlines, in the order the failures occurred. The string
  forms are those of \<^verbatim>\<open>Array.prototype.join\<close>, as the last part shows on one error
  of each kind: a string is itself; an error object is \<^verbatim>\<open>name: message\<close>, or the one
  of the two that is not empty; a number is its decimal digits; a boolean is its name;
  \<^verbatim>\<open>null\<close> and \<^verbatim>\<open>undefined\<close> are empty; an array is its elements joined by commas.
\<close>

theorem retry_exhaustion:
  assumes "\<forall>args s. \<exists>e s'. f args s = (Rejected e, s') \<and> representable e"
      and "heap w r = Some obj"
      and "opt_times obj = Some (int n)"
  shows "(\<exists>errs w'.
            Promise_retry (spy f) r [] w =
              (Rejected (ErrorObj ''Error''
                 (errorPrefix_of obj @ ''Exhausted retry loops:\<newline>'' @ js_join ''\<newline>'' errs)),
               errs, w')
          \<and> length errs = n
          \<and> list_all representable errs
          \<and> trace w' = trace w @
               concat (map (\<lambda>(i, e). [Invoked [Num (int n - int i)] (Rejected e), Slept (delay_of obj)])
                       (zip [0 ..< n] errs)))
         \<and> js_join ''\<newline>''
              [Str ''Nay'', ErrorObj ''Error'' ''down'', ErrorObj [] ''x'', ErrorObj ''TypeError'' [],
               Num 503, Num 0, Num (- 7), Num 9007199254740991, Boolean True, Boolean False,
               Null, Undefined, Arr [Num 1, Null, Arr [Str ''a'', Undefined, Str ''b'']]]
             = ''Nay\<newline>Error: down\<newline>x\<newline>TypeError\<newline>503\<newline>0\<newline>-7\<newline>9007199254740991\<newline>true\<newline>false\<newline>\<newline>\<newline>1,,a,,b''"
proof -
  have t: "times_of obj = int n" using assms(3) by (simp add: times_of_def)
  obtain res c' w' where run: "Promise_retry (spy f) r [] w = (res, c', w')"
    by (cases "Promise_retry (spy f) r [] w")
  with retry_spy_always_fails [OF assms(1) assms(2), of "[]"] obtain errs where
    "res = Rejected (ErrorObj ''Error''
       (errorPrefix_of obj @ ''Exhausted retry loops:\<newline>'' @ js_join ''\<newline>'' ([] @ errs)))"
    "c' = [] @ errs"
    "length errs = nat (times_of obj)"
    "list_all representable errs"
    "trace w' = trace w @
       concat (map (\<lambda>(i, e). [Invoked [Num (times_of obj - int i)] (Rejected e), Slept (delay_of obj)])
               (zip [0 ..< length errs] errs))"
    by auto
  with run t have general: "\<exists>errs w'.
            Promise_retry (spy f) r [] w =
              (Rejected (ErrorObj ''Error''
                 (errorPrefix_of obj @ ''Exhausted retry loops:\<newline>'' @ js_join ''\<newline>'' errs)),
               errs, w')
          \<and> length errs = n
          \<and> list_all representable errs
          \<and> trace w' = trace w @
               concat (map (\<lambda>(i, e). [Invoked [Num (int n - int i)] (Rejected e), Slept (delay_of obj)])
                       (zip [0 ..< n] errs))"
    by auto
  have forms: "js_join ''\<newline>''
              [Str ''Nay'', ErrorObj ''Error'' ''down'', ErrorObj [] ''x'', ErrorObj ''TypeError'' [],
               Num 503, Num 0, Num (- 7), Num 9007199254740991, Boolean True, Boolean False,
               Null, Undefined, Arr [Num 1, Null, Arr [Str ''a'', Undefined, Str ''b'']]]
             = ''Nay\<newline>Error: down\<newline>x\<newline>TypeError\<newline>503\<newline>0\<newline>-7\<newline>9007199254740991\<newline>true\<newline>false\<newline>\<newline>\<newline>1,,a,,b''"
    by (simp add: js_join_def int_to_string_def)
  from general forms show ?thesis by (rule conjI)
qed

text \<open>A callable that throws an \<^verbatim>\<open>Error\<close> and then a number, run with
  \<^verbatim>\<open>{times: 2, errorPrefix: 'boot: '}\<close>.\<close>

theorem retry_exhaustion_witness:
  "(\<exists>errs w'.
      Promise_retry (spy downThen503) 0 [] (world_with opts2) =
        (Rejected (ErrorObj ''Error''
           (''boot: Exhausted retry loops:\<newline>'' @ js_join ''\<newline>'' errs)), errs, w')
    \<and> length errs = 2 \<and> list_all representable errs)
   \<and> fst (Promise_retry (spy downThen503) 0 [] (world_with opts2))
       = Rejected (ErrorObj ''Error''
           ''boot: Exhausted retry loops:\<newline>Error: down\<newline>503'')"
proof -
  have fails: "\<forall>args s. \<exists>e s'. downThen503 args s = (Rejected e, s') \<and> representable e"
    by (simp add: downThen503_def safe_integer_def)
  have hp: "heap (world_with opts2) 0 = Some opts2" by (simp add: world_with_def)
  have tm: "opt_times opts2 = Some (int 2)" by (simp add: opts2_def)
  have pre: "errorPrefix_of opts2 = ''boot: ''" by (simp add: errorPrefix_of_def opts2_def)
  from retry_exhaustion [OF fails hp tm] obtain errs w' where
    run: "Promise_retry (spy downThen503) 0 [] (world_with opts2) =
       (Rejected (ErrorObj ''Error''
          (errorPrefix_of opts2 @ ''Exhausted retry loops:\<newline>'' @ js_join ''\<newline>'' errs)), errs, w')"
    and len: "length errs = 2"
    and reps: "list_all representable errs"
    by blast
  from run have "Promise_retry (spy downThen503) 0 [] (world_with opts2) =
        (Rejected (ErrorObj ''Error''
           (''boot: Exhausted retry loops:\<newline>'' @ js_join ''\<newline>'' errs)), errs, w')"
    by (simp add: pre)
  with len reps have "\<exists>errs w'.
      Promise_retry (spy downThen503) 0 [] (world_with opts2) =
        (Rejected (ErrorObj ''Error''
           (''boot: Exhausted retry loops:\<newline>'' @ js_join ''\<newline>'' errs)), errs, w')
    \<and> length errs = 2 \<and> list_all representable errs"
    by blast
  with down_503_run show ?thesis by blast
qed

subsection \<open>A budget of zero\<close>

text \<open>
  C4. With \<^verbatim>\<open>times: 0\<close> in the options object, \<^verbatim>\<open>Promise.retry\<close> called with no
  collected errors rejects at once with the exhaustion error whose list of collected
  errors is empty (the message ends after the newline), for every callable; the world is
  returned as it was, so the callable was not invoked and nothing was waited for.
\<close>

theorem retry_zero_times:
  assumes "heap w r = Some obj" and "opt_times obj = Some 0"
  shows "Promise_retry fn r [] w =
           (Rejected (ErrorObj ''Error'' (errorPrefix_of obj @ ''Exhausted retry loops:\<newline>'')),
            [], w)"
proof -
  have "times_of obj \<le> 0" using assms(2) by (simp add: times_of_def)
  from retry_exhausted [OF assms(1) this, of fn "[]"] show ?thesis
    by (simp add: js_join_def)
qed

theorem retry_zero_times_witness:
  "Promise_retry (spy worksFifthTime) 0 [] (world_with opts0) =
     (Rejected (ErrorObj ''Error'' ''boot: Exhausted retry loops:\<newline>''), [], world_with opts0)"
proof -
  have hp: "heap (world_with opts0) 0 = Some opts0" by (simp add: world_with_def)
  have tm: "opt_times opts0 = Some 0" by (simp add: opts0_def)
  from retry_zero_times [OF hp tm, of "spy worksFifthTime"] show ?thesis
    by (simp add: errorPrefix_of_def opts0_def)
qed

subsection \<open>Where the delays fall\<close>

text \<open>
  C6 as stated fails: the callable that always fails, run with \<^verbatim>\<open>times: 2\<close> and
  \<^verbatim>\<open>delay: 30\<close>, is called twice and each call is followed by a wait. The second wait
  has no attempt after it; it stands between the last failed attempt and the rejection.
\<close>

theorem retry_trailing_delay_counterexample:
  "\<not> delays_between_attempts 30
       (trace (snd (snd (Promise_retry (spy alwaysNay) 0 [] (world_with opts2)))))"
  by (simp add: nay_twice_run(2))

text \<open>
  C6, amended. In a run of \<^verbatim>\<open>Promise.retry\<close> with an observed callable the events are
  in sequence: failed attempts, each directly followed by one wait of the configured
  \<^verbatim>\<open>delay\<close>, and then at most one more attempt, which did not fail. So a wait occurs
  directly after every failed attempt and nowhere else: between a failed attempt and the
  next attempt, and once more between the last failed attempt and the rejection of an
  exhausted run; never before the first attempt and never after a successful one. In
  particular the callable that fails four times and then succeeds, run with
  \<^verbatim>\<open>times: 8\<close> and \<^verbatim>\<open>delay: 30\<close>, yields its success value after exactly four waits
  of 30, with four errors collected in the array that the settlement does not carry.
\<close>

theorem retry_delay_placement:
  assumes "heap w r = Some obj"
      and "Promise_retry (spy f) r c w = (res, c', w')"
  shows "(\<exists>evs. trace w' = trace w @ evs \<and> delays_follow_failures (delay_of obj) evs)
         \<and> fst (Promise_retry (spy worksFifthTime) 0 [] (world_with opts8)) = Resolved (Str ''Yay'')
         \<and> fst (snd (Promise_retry (spy worksFifthTime) 0 [] (world_with opts8)))
             = [Str ''Nay'', Str ''Nay'', Str ''Nay'', Str ''Nay'']
         \<and> trace (snd (snd (Promise_retry (spy worksFifthTime) 0 [] (world_with opts8))))
             = [Invoked [Num 8] (Rejected (Str ''Nay'')), Slept 30,
                Invoked [Num 7] (Rejected (Str ''Nay'')), Slept 30,
                Invoked [Num 6] (Rejected (Str ''Nay'')), Slept 30,
                Invoked [Num 5] (Rejected (Str ''Nay'')), Slept 30,
                Invoked [Num 4] (Resolved (Str ''Yay''))]"
proof -
  from retry_spy_delays [OF assms(1), of f c] assms(2)
  have "\<exists>evs. trace w' = trace w @ evs \<and> delays_follow_failures (delay_of obj) evs"
    by simp
  with fifth_time_run show ?thesis by simp
qed

theorem retry_delay_placement_witness:
  "delays_follow_failures 30
     (trace (snd (snd (Promise_retry (spy alwaysNay) 0 [] (world_with opts2)))))
   \<and> delays_follow_failures 30
     (trace (snd (snd (Promise_retry (spy worksFifthTime) 0 [] (world_with opts8)))))"
proof -
  have hp2: "heap (world_with opts2) 0 = Some opts2" by (simp add: world_with_def)
  have hp8: "heap (world_with opts8) 0 = Some opts8" by (simp add: world_with_def)
  have d2: "delay_of opts2 = 30" by (simp add: delay_of_def opts2_def)
  have d8: "delay_of opts8 = 30" by (simp add: delay_of_def opts8_def)
  have tr [simp]: "\<And>obj. trace (world_with obj) = []" by (simp add: world_with_def)
  obtain res2 c2 w2 where run2:
    "Promise_retry (spy alwaysNay) 0 [] (world_with opts2) = (res2, c2, w2)"
    by (cases "Promise_retry (spy alwaysNay) 0 [] (world_with opts2)")
  obtain res8 c8 w8 where run8:
    "Promise_retry (spy worksFifthTime) 0 [] (world_with opts8) = (res8, c8, w8)"
    by (cases "Promise_retry (spy worksFifthTime) 0 [] (world_with opts8)")
  from retry_delay_placement [OF hp2 run2] have "delays_follow_failures 30 (trace w2)"
    by (auto simp: d2)
  moreover from retry_delay_placement [OF hp8 run8] have "delays_follow_failures 30 (trace w8)"
    by (auto simp: d8)
  ultimately show ?thesis by (simp add: run2 run8)
qed

subsection \<open>The options object\<close>

text \<open>
  C7. \<^verbatim>\<open>Promise.retry\<close> works on the caller's options object itself, through the
  reference it was given. After a run with an observed callable, the heap differs from
  the heap before in that one object only, and there in its \<^verbatim>\<open>times\<close> only, which is
  the value read at the start (1 when the property was absent) less the number of failed
  attempts; no other reference is written and no copy is made. The attempts received the
  remaining count as it stood in the object when each of them started: the value at the
  start, then one less per failed attempt. A run without a failed attempt leaves the heap
  as it was.
\<close>

theorem retry_mutates_options_in_place:
  assumes "heap w r = Some obj"
      and "Promise_retry (spy f) r c w = (res, c', w')"
  shows "\<exists>evs. trace w' = trace w @ evs
           \<and> heap w' =
               (if failed_attempts evs = 0 then heap w
                else (heap w)(r \<mapsto>
                       obj\<lparr>opt_times := Some (times_of obj - int (failed_attempts evs))\<rparr>))
           \<and> attempt_args evs =
               map (\<lambda>i. [Num (times_of obj - int i)]) [0 ..< length (attempt_args evs)]"
  using retry_spy_heap [OF assms(1), of f c] assms(2) by simp

theorem retry_mutates_options_in_place_witness:
  "heap (snd (snd (Promise_retry (spy worksFifthTime) 0 [] (world_with opts8))))
     = (heap (world_with opts8))(0 \<mapsto> opts8\<lparr>opt_times := Some 4\<rparr>)
   \<and> attempt_args (trace (snd (snd (Promise_retry (spy worksFifthTime) 0 [] (world_with opts8)))))
     = [[Num 8], [Num 7], [Num 6], [Num 5], [Num 4]]"
proof -
  have hp: "heap (world_with opts8) 0 = Some opts8" by (simp add: world_with_def)
  have t8: "times_of opts8 = 8" by (simp add: times_of_def opts8_def)
  obtain res c' w' where run:
    "Promise_retry (spy worksFifthTime) 0 [] (world_with opts8) = (res, c', w')"
    by (cases "Promise_retry (spy worksFifthTime) 0 [] (world_with opts8)")
  from retry_mutates_options_in_place [OF hp run] obtain evs where
    tr: "trace w' = trace (world_with opts8) @ evs"
    and h: "heap w' =
              (if failed_attempts evs = 0 then heap (world_with opts8)
               else (heap (world_with opts8))(0 \<mapsto>
                      opts8\<lparr>opt_times := Some (times_of opts8 - int (failed_attempts evs))\<rparr>))"
    by blast
  from fifth_time_run(3) run tr have evs: "evs =
      [Invoked [Num 8] (Rejected (Str ''Nay'')), Slept 30,
       Invoked [Num 7] (Rejected (Str ''Nay'')), Slept 30,
       Invoked [Num 6] (Rejected (Str ''Nay'')), Slept 30,
       Invoked [Num 5] (Rejected (Str ''Nay'')), Slept 30,
       Invoked [Num 4] (Resolved (Str ''Yay''))]"
    by (simp add: world_with_def)
  have "heap w' = (heap (world_with opts8))(0 \<mapsto> opts8\<lparr>opt_times := Some 4\<rparr>)"
    using h by (simp add: evs t8)
  moreover have "attempt_args (trace w') = [[Num 8], [Num 7], [Num 6], [Num 5], [Num 4]]"
    using tr by (simp add: evs world_with_def)
  ultimately show ?thesis by (simp add: run)
qed

subsection \<open>Success at the first attempt\<close>

text \<open>
  C10. When the object allows an attempt and the first call of the observed callable
  fulfils, \<^verbatim>\<open>Promise.retry\<close> resolves to that value; the heap is the heap before the
  call, so the options object is unmodified, \<^verbatim>\<open>times\<close> included; the only new event is
  the call itself, so no delay elapsed; and the array of collected errors is as it was.
\<close>

theorem retry_first_success_leaves_options:
  assumes "heap w r = Some obj"
      and "0 < times_of obj"
      and "f [Num (times_of obj)] (env w) = (Resolved v, s')"
  shows "\<exists>w'. Promise_retry (spy f) r c w = (Resolved v, c, w')
           \<and> heap w' = heap w
           \<and> trace w' = trace w @ [Invoked [Num (times_of obj)] (Resolved v)]"
  using retry_spy_resolved [where f = f and w = w and r = r and obj = obj and v = v
      and s' = s' and c = c, OF assms]
  by simp

theorem retry_first_success_leaves_options_witness:
  "\<exists>w'. Promise_retry (spy echo_prev) 0 [] (world_with opts2) = (Resolved (Num 2), [], w')
     \<and> heap w' = heap (world_with opts2)
     \<and> trace w' = [Invoked [Num 2] (Resolved (Num 2))]"
proof -
  have hp: "heap (world_with opts2) 0 = Some opts2" by (simp add: world_with_def)
  have t2: "times_of opts2 = 2" by (simp add: times_of_def opts2_def)
  have pos: "0 < times_of opts2" by (simp add: t2)
  have call: "echo_prev [Num (times_of opts2)] (env (world_with opts2)) = (Resolved (Num 2), 0)"
    by (simp add: echo_prev_def t2 world_with_def js_index_def)
  from retry_first_success_leaves_options [where f = echo_prev and w = "world_with opts2"
      and r = 0 and obj = opts2 and v = "Num 2" and s' = 0 and c = "[]", OF hp pos call]
  show ?thesis
    by (simp add: t2 world_with_def)
qed

section \<open>Properties of \<^verbatim>\<open>firstSuccess\<close>\<close>

text \<open>Called with no receiver, \<^verbatim>\<open>Promise.all\<close> throws before any promise is looked
  at: \<^verbatim>\<open>firstSuccess\<close> throws on every input.\<close>

lemma firstSuccess_always_throws:
  "Promise_firstSuccess arr = Throw (ErrorObj ''TypeError'' ''Promise.all called on non-object'')"
  by (simp add: Promise_firstSuccess_def firstSuccess_with_def Promise_all_def)

text \<open>With \<^verbatim>\<open>Promise\<close> as receiver of the three statics the body does what the README
  describes: each promise is turned round, the turned promises are joined, and the
  joined promise is turned back.\<close>

lemma turn_round:
  "promise_then p (\<lambda>val. Promise_reject PromiseConstructor val)
       (\<lambda>err. Promise_resolve PromiseConstructor err)
     = (case p of Fulfils t v \<Rightarrow> Rejects t v | Rejects t e \<Rightarrow> Fulfils t e
        | NeverSettles \<Rightarrow> NeverSettles)"
  by (cases p) (simp_all add: Promise_reject_def Promise_resolve_def)

lemma first_rejection_turned:
  "first_rejection
     (map (\<lambda>p. case p of Fulfils t v \<Rightarrow> Rejects t v | Rejects t e \<Rightarrow> Fulfils t e
                | NeverSettles \<Rightarrow> NeverSettles) arr)
     = first_fulfilment arr"
proof (induction arr)
  case Nil
  show ?case by simp
next
  case (Cons p arr)
  then show ?case by (cases p) simp_all
qed

lemma firstSuccess_bound_first_success:
  assumes "first_fulfilment arr = Some (t, v)"
  shows "firstSuccess_with PromiseConstructor arr = Return (Fulfils t v)"
  using assms
  by (simp add: firstSuccess_with_def Promise_all_def turn_round first_rejection_turned
      Promise_resolve_def)

lemma fulfilments_turned_rejections:
  "fulfilments
     (map (\<lambda>p. case p of Fulfils t v \<Rightarrow> Rejects t v | Rejects t e \<Rightarrow> Fulfils t e
                | NeverSettles \<Rightarrow> NeverSettles) (map (\<lambda>(t, e). Rejects t e) tes))
     = Some (foldr max (map fst tes) 0, map snd tes)"
  by (induction tes) (auto split: prod.splits)

lemma first_fulfilment_rejections: "first_fulfilment (map (\<lambda>(t, e). Rejects t e) tes) = None"
  by (induction tes) (auto split: prod.splits)

lemma firstSuccess_bound_all_fail:
  "firstSuccess_with PromiseConstructor (map (\<lambda>(t, e). Rejects t e) tes)
     = Return (Rejects (foldr max (map fst tes) 0) (Arr (map snd tes)))"
  by (simp add: firstSuccess_with_def Promise_all_def turn_round first_rejection_turned
      first_fulfilment_rejections fulfilments_turned_rejections Promise_reject_def
      del: map_map)

lemma firstSuccess_bound_examples:
  "firstSuccess_with PromiseConstructor [Rejects 0 (Num 10), Fulfils 0 (Num 20)]
     = Return (Fulfils 0 (Num 20))"
  "firstSuccess_with PromiseConstructor [Rejects 0 (Num 10), Rejects 0 (Num 20)]
     = Return (Rejects 0 (Arr [Num 10, Num 20]))"
  by (simp_all add: firstSuccess_with_def Promise_all_def Promise_reject_def Promise_resolve_def)

text \<open>
  C2 says that \<^verbatim>\<open>firstSuccess\<close> of a failing task and a task resolved to 20 resolves
  to 20, and that \<^verbatim>\<open>firstSuccess\<close> of two tasks rejected with 10 and 20 rejects with
  \<^verbatim>\<open>[10, 20]\<close>. The code takes \<^verbatim>\<open>all\<close>, \<^verbatim>\<open>reject\<close> and \<^verbatim>\<open>resolve\<close> off
  \<^verbatim>\<open>Promise\<close> and calls them without a receiver, so on both inputs the call of
  \<^verbatim>\<open>all\<close> throws a \<^verbatim>\<open>TypeError\<close> and no promise is returned at all.
\<close>

theorem firstSuccess_throws_on_examples:
  "Promise_firstSuccess [Rejects 0 (Num 10), Fulfils 0 (Num 20)]
     = Throw (ErrorObj ''TypeError'' ''Promise.all called on non-object'')
   \<and> Promise_firstSuccess [Rejects 0 (Num 10), Rejects 0 (Num 20)]
     = Throw (ErrorObj ''TypeError'' ''Promise.all called on non-object'')"
  by (simp add: Promise_firstSuccess_def firstSuccess_with_def Promise_all_def)

end
